theory Spec2Isabelle
  imports Complex_Main
begin

section \<open>Python values, exceptions and effects\<close>

text \<open>
  The analyzer of \<^verbatim>\<open>src/utils/fraud_utils.py\<close> and the endpoint of \<^verbatim>\<open>src/app.py\<close> are
  embedded as HOL functions. Python \<^verbatim>\<open>str\<close> is \<open>string\<close>, with the characters below
  256; \<^verbatim>\<open>bytes\<close> is a list of 8-bit characters; a \<^verbatim>\<open>Dict\<close> that is returned to the
  caller is an association list in insertion order; and a dictionary that is only read is
  a map. Each definition follows its function of the source statement by statement, the
  log records included.
\<close>

type_synonym bytes = "char list"

datatype pyval =
    PNone
  | PBool bool
  | PInt int
  | PFloat real
  | PStr string
  | PList "pyval list"
  | PDict "(string \<times> pyval) list"

type_synonym pydict = "(string \<times> pyval) list"

text \<open>
  An exception is its class, as far as the \<^verbatim>\<open>except\<close> clauses of the program tell classes
  apart, and the text \<^verbatim>\<open>str(e)\<close>. \<open>ValueError\<close> stands for every instance of
  \<^verbatim>\<open>ValueError\<close>, subclasses such as \<^verbatim>\<open>binascii.Error\<close> included; \<open>OtherException\<close> for
  every other instance of \<^verbatim>\<open>Exception\<close>. What is not an \<^verbatim>\<open>Exception\<close>
  (\<^verbatim>\<open>KeyboardInterrupt\<close>, \<^verbatim>\<open>SystemExit\<close>) is outside the model.
\<close>

datatype pyexn = ValueError string | OtherException string

fun exn_str :: "pyexn \<Rightarrow> string" where
  "exn_str (ValueError m) = m"
| "exn_str (OtherException m) = m"

text \<open>
  The effects of the program are the records it logs and the calls it makes to code
  outside the repository. Both are collected, in order, in the trace of a computation.
\<close>

record web_image =
  url :: string

record web_detection =
  full_matching_images :: "web_image list"
  partial_matching_images :: "web_image list"

record pil_image =
  format :: "string option"
  info :: "string \<rightharpoonup> bytes"

datatype exif_value = ExBytes bytes | ExInt int | ExTuple "exif_value list"

type_synonym exif_dict = "string \<rightharpoonup> (nat \<rightharpoonup> exif_value)"

record predict_response =
  deployed_model_id :: string
  model_version_id :: string
  model_display_name :: string
  predictions :: "pydict list"

datatype ext_call =
    B64decode string
  | Image_open bytes
  | Image_verify
  | Web_detection bytes
  | Predict string
  | Piexif_load bytes
  | Json_render pydict

datatype event = LogInfo string | LogError string | Ext ext_call

type_synonym ('e, 'a) io = "('e + 'a) \<times> event list"

definition ret :: "'a \<Rightarrow> ('e, 'a) io" where
  "ret x = (Inr x, [])"

definition throw :: "'e \<Rightarrow> ('e, 'a) io" where
  "throw e = (Inl e, [])"

definition bnd :: "('e, 'a) io \<Rightarrow> ('a \<Rightarrow> ('e, 'b) io) \<Rightarrow> ('e, 'b) io" where
  "bnd m f =
     (case m of
        (Inl e, t) \<Rightarrow> (Inl e, t)
      | (Inr x, t) \<Rightarrow> (case f x of (r, t') \<Rightarrow> (r, t @ t')))"

text \<open>
  \<^verbatim>\<open>try: m except Exception as e: h(e)\<close>. An exception raised by the handler itself
  leaves the statement.
\<close>

definition try_except :: "('e, 'a) io \<Rightarrow> ('e \<Rightarrow> ('f, 'a) io) \<Rightarrow> ('f, 'a) io" where
  "try_except m h =
     (case m of
        (Inl e, t) \<Rightarrow> (case h e of (r, t') \<Rightarrow> (r, t @ t'))
      | (Inr x, t) \<Rightarrow> (Inr x, t))"

definition log_info :: "string \<Rightarrow> ('e, unit) io" where
  "log_info m = (Inr (), [LogInfo m])"

definition log_error :: "string \<Rightarrow> ('e, unit) io" where
  "log_error m = (Inr (), [LogError m])"

text \<open>A call to code outside the repository: the call is recorded, its outcome is given.\<close>

definition call :: "ext_call \<Rightarrow> 'e + 'a \<Rightarrow> ('e, 'a) io" where
  "call c r = (r, [Ext c])"

subsection \<open>The code outside the repository\<close>

text \<open>
  The standard library, Pillow, piexif and the two remote services are parameters of the
  model: each is a function from its argument to the value it returns or the exception it
  raises.
  \<^item> \<open>b64decode\<close> is \<^verbatim>\<open>base64.b64decode\<close>;
  \<^item> \<open>pil_open\<close> is \<^verbatim>\<open>Image.open(io.BytesIO(data))\<close> and \<open>pil_verify\<close> is \<^verbatim>\<open>Image.verify\<close>;
  \<^item> \<open>vision_web_detection\<close> is the lazily created vision client and its
    \<^verbatim>\<open>web_detection(image=vision.Image(content=data)).web_detection\<close>;
  \<^item> \<open>vertex_predict\<close> is the lazily created prediction client and its \<^verbatim>\<open>predict\<close>
    on the endpoint path of a project, location and endpoint, and on the instance built
    from the encoded content, with the parameters fixed in the source;
  \<^item> \<open>piexif_load\<close> is \<^verbatim>\<open>piexif.load\<close>;
  \<^item> \<open>utf8_decode_ignore\<close> is \<^verbatim>\<open>bytes.decode('utf-8', 'ignore')\<close>, which never raises;
  \<^item> \<open>json_render\<close> is the rendering that \<^verbatim>\<open>JSONResponse(content=response)\<close> does when
    it is built, which raises on a content that is not JSON.

  The two client properties of the analyzer are part of the calls to the services: the
  failure to create a client is a failure of the call, as both happen inside the
  \<^verbatim>\<open>try\<close> of the strategy. The one record that a property logs when it creates its
  client, on the first use in the process, is not in the trace; it would follow the
  entry record of the strategy and it changes no result.
\<close>

record env =
  b64decode :: "string \<Rightarrow> pyexn + bytes"
  pil_open :: "bytes \<Rightarrow> pyexn + pil_image"
  pil_verify :: "pil_image \<Rightarrow> pyexn + unit"
  vision_web_detection :: "bytes \<Rightarrow> pyexn + web_detection"
  vertex_predict :: "string \<times> string \<times> string \<Rightarrow> string \<Rightarrow> pyexn + predict_response"
  piexif_load :: "bytes \<Rightarrow> pyexn + exif_dict"
  utf8_decode_ignore :: "bytes \<Rightarrow> string"
  json_render :: "pydict \<Rightarrow> pyexn + unit"

subsection \<open>Strings\<close>

text \<open>\<^verbatim>\<open>str(n)\<close> of a natural number, as the f-strings of the source render a length.\<close>

definition digit_char :: "nat \<Rightarrow> char" where
  "digit_char d = ''0123456789'' ! d"

function str_nat :: "nat \<Rightarrow> string" where
  "str_nat n = (if n < 10 then [digit_char n] else str_nat (n div 10) @ [digit_char (n mod 10)])"
  by pat_completeness auto
termination
  by (relation "measure id") auto

declare str_nat.simps [simp del]

text \<open>\<^verbatim>\<open>s.replace(c, '')\<close> for a one-character \<open>c\<close>.\<close>

definition py_remove :: "char \<Rightarrow> string \<Rightarrow> string" where
  "py_remove c s = filter (\<lambda>x. x \<noteq> c) s"

text \<open>
  \<^verbatim>\<open>str.isspace\<close> on the characters below 256: tab to carriage return, the four
  separators 28 to 31, space, next line (133) and no-break space (160).
\<close>

definition py_isspace :: "char \<Rightarrow> bool" where
  "py_isspace c =
     (let n = (of_char c :: nat)
      in (9 \<le> n \<and> n \<le> 13) \<or> (28 \<le> n \<and> n \<le> 32) \<or> n = 133 \<or> n = 160)"

definition py_strip :: "string \<Rightarrow> string" where
  "py_strip s = rev (dropWhile py_isspace (rev (dropWhile py_isspace s)))"

text \<open>\<^verbatim>\<open>str(x)\<close> of a value that is a string or \<^verbatim>\<open>None\<close>.\<close>

fun str_opt :: "string option \<Rightarrow> string" where
  "str_opt None = ''None''"
| "str_opt (Some s) = s"

section \<open>The analyzer\<close>

subsection \<open>Configuration\<close>

definition PROJECT :: string where
  "PROJECT = ''ck-vertex''"

definition LOCATION :: string where
  "LOCATION = ''us-central1''"

definition ENDPOINT_ID :: string where
  "ENDPOINT_ID = ''6057421763162144768''"

definition MAX_IMAGE_SIZE :: nat where
  "MAX_IMAGE_SIZE = 1500000"

subsection \<open>Validation\<close>

definition validate_image :: "env \<Rightarrow> string \<Rightarrow> (pyexn, bytes \<times> pil_image) io" where
  "validate_image env base64_string =
     try_except
       (bnd (log_info ''Starting image validation'') (\<lambda>_.
        let cleaned_string =
              py_strip (py_remove (CHR 0x0D) (py_remove (CHR 0x0A) base64_string))
        in
        bnd (call (B64decode cleaned_string) (b64decode env cleaned_string)) (\<lambda>image_data.
        let size = length image_data in
        bnd (log_info (''Image size: '' @ str_nat size @ '' bytes'')) (\<lambda>_.
        if size > MAX_IMAGE_SIZE then
          throw (ValueError (''Image size ('' @ str_nat size
                   @ '' bytes) exceeds maximum allowed size of ''
                   @ str_nat MAX_IMAGE_SIZE @ '' bytes''))
        else
          try_except
            (bnd (call (Image_open image_data) (pil_open env image_data)) (\<lambda>pil_image.
             bnd (call Image_verify (pil_verify env pil_image)) (\<lambda>_.
             bnd (call (Image_open image_data) (pil_open env image_data)) (\<lambda>pil_image.
             bnd (log_info (''Image validated successfully. Format: ''
                     @ str_opt (format pil_image))) (\<lambda>_.
             ret (image_data, pil_image))))))
            (\<lambda>e.
             bnd (log_error (''Image validation failed: '' @ exn_str e)) (\<lambda>_.
             throw (ValueError (''Invalid image format: '' @ exn_str e))))))))
       (\<lambda>e.
        bnd (log_error (''Image validation failed: '' @ exn_str e)) (\<lambda>_.
        throw (ValueError (''Invalid image data: '' @ exn_str e))))"

subsection \<open>Web detection\<close>

definition process_web_detection :: "env \<Rightarrow> bytes \<Rightarrow> (pyexn, pydict) io" where
  "process_web_detection env image_data =
     try_except
       (bnd (log_info ''Starting web detection'') (\<lambda>_.
        bnd (call (Web_detection image_data) (vision_web_detection env image_data)) (\<lambda>wd.
        let is_fraud = (full_matching_images wd \<noteq> []);
            matching_count = (if is_fraud then length (full_matching_images wd) else 0)
        in
        bnd (log_info (''Web detection completed. Found '' @ str_nat matching_count
                @ '' matching images'')) (\<lambda>_.
        ret [(''is_fraud'', PBool is_fraud),
             (''matching_images_count'', PInt (int matching_count)),
             (''full_matching_images'', PList (map (\<lambda>img. PStr (url img)) (full_matching_images wd))),
             (''partial_matching_images'',
                PList (map (\<lambda>img. PStr (url img)) (partial_matching_images wd)))]))))
       (\<lambda>e.
        bnd (log_error (''Web detection failed: '' @ exn_str e)) (\<lambda>_.
        throw (ValueError (''Web detection failed: '' @ exn_str e))))"

subsection \<open>Classification\<close>

text \<open>\<^verbatim>\<open>repr\<close> of a string without quotes or escapes in it.\<close>

definition py_quote :: "string \<Rightarrow> string" where
  "py_quote s = CHR 0x27 # s @ [CHR 0x27]"

text \<open>\<^verbatim>\<open>list(v)\<close>: the elements of an iterable, \<^verbatim>\<open>TypeError\<close> otherwise.\<close>

fun py_list :: "pyval \<Rightarrow> (pyexn, pyval list) io" where
  "py_list (PList xs) = ret xs"
| "py_list (PStr s) = ret (map (\<lambda>c. PStr [c]) s)"
| "py_list (PDict d) = ret (map (\<lambda>kv. PStr (fst kv)) d)"
| "py_list PNone = throw (OtherException (py_quote ''NoneType'' @ '' object is not iterable''))"
| "py_list (PBool _) = throw (OtherException (py_quote ''bool'' @ '' object is not iterable''))"
| "py_list (PInt _) = throw (OtherException (py_quote ''int'' @ '' object is not iterable''))"
| "py_list (PFloat _) = throw (OtherException (py_quote ''float'' @ '' object is not iterable''))"

text \<open>\<^verbatim>\<open>d[k] = v\<close> on a dictionary in insertion order.\<close>

fun dict_set :: "string \<Rightarrow> pyval \<Rightarrow> pydict \<Rightarrow> pydict" where
  "dict_set k v [] = [(k, v)]"
| "dict_set k v ((k', v') # d) = (if k' = k then (k, v) # d else (k', v') # dict_set k v d)"

text \<open>\<^verbatim>\<open>d[k] = list(d[k])\<close>; a missing key is a \<^verbatim>\<open>KeyError\<close>, whose text is the key quoted.\<close>

definition listify :: "string \<Rightarrow> pydict \<Rightarrow> (pyexn, pydict) io" where
  "listify k d =
     (case map_of d k of
        None \<Rightarrow> throw (OtherException (py_quote k))
      | Some v \<Rightarrow> bnd (py_list v) (\<lambda>xs. ret (dict_set k (PList xs) d)))"

text \<open>The loop over \<^verbatim>\<open>response.predictions\<close>.\<close>

fun convert_predictions :: "pydict list \<Rightarrow> (pyexn, pydict list) io" where
  "convert_predictions [] = ret []"
| "convert_predictions (pred # rest) =
     bnd (listify ''confidences'' pred) (\<lambda>pred_dict.
     bnd (listify ''displayNames'' pred_dict) (\<lambda>pred_dict.
     bnd (listify ''ids'' pred_dict) (\<lambda>pred_dict.
     bnd (convert_predictions rest) (\<lambda>predictions.
     ret (pred_dict # predictions)))))"

definition classify_image :: "env \<Rightarrow> string \<Rightarrow> (pyexn, pydict) io" where
  "classify_image env encoded_content =
     try_except
       (bnd (log_info ''Starting image classification'') (\<lambda>_.
        bnd (call (Predict encoded_content)
               (vertex_predict env (PROJECT, LOCATION, ENDPOINT_ID) encoded_content)) (\<lambda>response.
        bnd (convert_predictions (predictions response)) (\<lambda>predictions.
        bnd (log_info ''Classification completed successfully'') (\<lambda>_.
        ret [(''deployed_model_id'', PStr (deployed_model_id response)),
             (''model_version_id'', PStr (model_version_id response)),
             (''model_display_name'', PStr (model_display_name response)),
             (''predictions'', PList (map PDict predictions))])))))
       (\<lambda>e.
        bnd (log_error (''Classification failed: '' @ exn_str e)) (\<lambda>_.
        throw (ValueError (''Classification failed: '' @ exn_str e))))"

subsection \<open>EXIF analysis\<close>

text \<open>The tag numbers of \<^verbatim>\<open>piexif.ImageIFD\<close> and \<^verbatim>\<open>piexif.ExifIFD\<close> (the EXIF standard).\<close>

definition ImageIFD_Model :: nat where
  "ImageIFD_Model = 272"

definition ImageIFD_Software :: nat where
  "ImageIFD_Software = 305"

definition ExifIFD_DateTimeOriginal :: nat where
  "ExifIFD_DateTimeOriginal = 36867"

definition ExifIFD_DateTimeDigitized :: nat where
  "ExifIFD_DateTimeDigitized = 36868"

text \<open>\<^verbatim>\<open>exif_data.get(ifd, {}).get(tag, b'')\<close>.\<close>

definition exif_get :: "exif_dict \<Rightarrow> string \<Rightarrow> nat \<Rightarrow> exif_value" where
  "exif_get exif_data ifd tag =
     (case exif_data ifd of
        None \<Rightarrow> ExBytes []
      | Some d \<Rightarrow> (case d tag of None \<Rightarrow> ExBytes [] | Some v \<Rightarrow> v))"

text \<open>
  \<^verbatim>\<open>v.decode('utf-8', 'ignore')\<close>: only \<^verbatim>\<open>bytes\<close> have the method; on the integers and
  tuples that piexif gives for other tag types it is an \<^verbatim>\<open>AttributeError\<close>.
\<close>

fun decode :: "env \<Rightarrow> exif_value \<Rightarrow> (pyexn, string) io" where
  "decode env (ExBytes b) = ret (utf8_decode_ignore env b)"
| "decode env (ExInt _) =
     throw (OtherException (py_quote ''int'' @ '' object has no attribute '' @ py_quote ''decode''))"
| "decode env (ExTuple _) =
     throw (OtherException (py_quote ''tuple'' @ '' object has no attribute '' @ py_quote ''decode''))"

definition analyze_exif :: "env \<Rightarrow> pil_image \<Rightarrow> (pyexn, pydict) io" where
  "analyze_exif env pil_image =
     try_except
       (bnd (log_info ''Starting EXIF analysis'') (\<lambda>_.
        case info pil_image ''exif'' of
          None \<Rightarrow>
            bnd (log_info ''No EXIF data found in image'') (\<lambda>_.
            ret [(''camera_model'', PStr ''''),
                 (''software'', PStr ''''),
                 (''datetime_original'', PStr ''''),
                 (''datetime_digitized'', PStr ''''),
                 (''warnings'', PList [PStr ''No EXIF data found in image''])])
        | Some raw \<Rightarrow>
            bnd (call (Piexif_load raw) (piexif_load env raw)) (\<lambda>exif_data.
            bnd (decode env (exif_get exif_data ''0th'' ImageIFD_Model)) (\<lambda>camera_model.
            bnd (decode env (exif_get exif_data ''0th'' ImageIFD_Software)) (\<lambda>software.
            bnd (decode env (exif_get exif_data ''Exif'' ExifIFD_DateTimeOriginal))
              (\<lambda>datetime_original.
            bnd (decode env (exif_get exif_data ''Exif'' ExifIFD_DateTimeDigitized))
              (\<lambda>datetime_digitized.
            let warnings = [];
                warnings =
                  (if software \<noteq> [] then
                     warnings @ [''Image edited with software: '' @ software]
                   else warnings);
                warnings =
                  (if datetime_original \<noteq> [] \<and> datetime_digitized \<noteq> []
                      \<and> datetime_original \<noteq> datetime_digitized then
                     warnings @ [''Original date and digitized date do not match.'']
                   else warnings)
            in
            bnd (log_info ''EXIF analysis completed successfully'') (\<lambda>_.
            ret [(''camera_model'', PStr camera_model),
                 (''software'', PStr software),
                 (''datetime_original'', PStr datetime_original),
                 (''datetime_digitized'', PStr datetime_digitized),
                 (''warnings'', PList (map PStr warnings))]))))))))
       (\<lambda>e.
        bnd (log_error (''EXIF analysis failed: '' @ exn_str e)) (\<lambda>_.
        ret [(''error'', PStr (''EXIF analysis failed: '' @ exn_str e))]))"

subsection \<open>Dispatch\<close>

text \<open>
  The table of closures is a table of computations: only the one that is looked up and
  called contributes its effects.
\<close>

definition analyze :: "env \<Rightarrow> string \<Rightarrow> string \<Rightarrow> (pyexn, pydict) io" where
  "analyze env base64_content analysis_type =
     try_except
       (bnd (log_info (''Starting analysis of type: '' @ analysis_type)) (\<lambda>_.
        bnd (validate_image env base64_content) (\<lambda>(image_data, pil_image).
        let analysis_methods =
              [(''web_search'', process_web_detection env image_data),
               (''classification'', classify_image env base64_content),
               (''exif'', analyze_exif env pil_image)]
        in
        case map_of analysis_methods analysis_type of
          None \<Rightarrow> throw (ValueError (''Invalid analysis type: '' @ analysis_type))
        | Some method \<Rightarrow>
            bnd method (\<lambda>result.
            bnd (log_info (''Analysis completed successfully for type: '' @ analysis_type)) (\<lambda>_.
            ret result)))))
       (\<lambda>e.
        bnd (log_error (''Analysis failed: '' @ exn_str e)) (\<lambda>_.
        throw e))"

section \<open>The endpoint\<close>

text \<open>
  The request schema admits one source type and three analysis types; the handler runs
  on requests that passed it. \<^verbatim>\<open>JSONResponse(content=response)\<close> renders its content
  inside the \<^verbatim>\<open>try\<close> of the handler, so an exception of the rendering is answered by
  the handler as well.
\<close>

datatype source_kind = Base64

datatype analysis_kind = Web_search | Exif | Classification

fun analysis_kind_str :: "analysis_kind \<Rightarrow> string" where
  "analysis_kind_str Web_search = ''web_search''"
| "analysis_kind_str Exif = ''exif''"
| "analysis_kind_str Classification = ''classification''"

record image_request =
  source_type :: source_kind
  source :: string
  analysis_type :: analysis_kind

datatype http_exception = HTTPException (status_code: nat) (detail: string)

datatype json_response = JSONResponse (content: pydict)

definition analyze_fraud :: "env \<Rightarrow> image_request \<Rightarrow> (http_exception, json_response) io" where
  "analyze_fraud env request =
     try_except
       (bnd (log_info (''Received request for analysis type: ''
               @ analysis_kind_str (analysis_type request))) (\<lambda>_.
        bnd (analyze env (source request) (analysis_kind_str (analysis_type request)))
          (\<lambda>response.
        bnd (call (Json_render response) (json_render env response)) (\<lambda>_.
        ret (JSONResponse response)))))
       (\<lambda>e. case e of
          ValueError m \<Rightarrow>
            bnd (log_error (''Validation error: '' @ m)) (\<lambda>_.
            throw (HTTPException 400 m))
        | OtherException m \<Rightarrow>
            bnd (log_error (''Unexpected error: '' @ m)) (\<lambda>_.
            throw (HTTPException 500 (''An unexpected error occurred: '' @ m))))"

section \<open>Observing a run\<close>

text \<open>
  A strategy has been invoked when the trace holds the record that the strategy logs on
  entry, or a call that only a strategy makes.
\<close>

fun strategy_event :: "event \<Rightarrow> bool" where
  "strategy_event (LogInfo m) =
     (m = ''Starting web detection'' \<or> m = ''Starting image classification''
      \<or> m = ''Starting EXIF analysis'')"
| "strategy_event (LogError m) = False"
| "strategy_event (Ext (Web_detection _)) = True"
| "strategy_event (Ext (Predict _)) = True"
| "strategy_event (Ext (Piexif_load _)) = True"
| "strategy_event (Ext _) = False"

text \<open>Image-format parsing is a call to Pillow.\<close>

fun parsing_event :: "event \<Rightarrow> bool" where
  "parsing_event (Ext (Image_open _)) = True"
| "parsing_event (Ext Image_verify) = True"
| "parsing_event _ = False"

text \<open>A tag value that is \<^verbatim>\<open>bytes\<close>, and a tag that the EXIF block holds.\<close>

fun is_bytes :: "exif_value \<Rightarrow> bool" where
  "is_bytes (ExBytes _) = True"
| "is_bytes _ = False"

definition tag_present :: "exif_dict \<Rightarrow> string \<Rightarrow> nat \<Rightarrow> bool" where
  "tag_present exif_data ifd tag =
     (case exif_data ifd of None \<Rightarrow> False | Some d \<Rightarrow> d tag \<noteq> None)"

section \<open>A sample environment\<close>

text \<open>
  Doubles for the code outside the repository, as a test would mock it: one base64 text
  decodes, to four bytes that the double of Pillow opens as a JPEG image without an EXIF
  block, and every other text has incorrect padding; the web detection reports one full
  and one partial match; the classifier returns one prediction; every content renders as
  JSON. The decoder of the double
  keeps the ASCII characters, which is what \<^verbatim>\<open>bytes.decode('utf-8', 'ignore')\<close> does on
  the ASCII texts used here.
\<close>

definition sample_bytes :: bytes where
  "sample_bytes = [CHR 0xFF, CHR 0xD8, CHR 0xFF, CHR 0xD9]"

definition sample_image :: pil_image where
  "sample_image = \<lparr>format = Some ''JPEG'', info = Map.empty\<rparr>"

definition sample_detection :: web_detection where
  "sample_detection =
     \<lparr>full_matching_images = [\<lparr>url = ''https://example.com/a.jpg''\<rparr>],
      partial_matching_images = [\<lparr>url = ''https://example.com/b.jpg''\<rparr>]\<rparr>"

definition sample_prediction :: predict_response where
  "sample_prediction =
     \<lparr>deployed_model_id = ''1'', model_version_id = ''1'', model_display_name = ''fraud'',
      predictions =
        [[(''confidences'', PList [PFloat 1]), (''displayNames'', PList [PStr ''real'']),
          (''ids'', PList [PStr ''7''])]]\<rparr>"

definition sample_exif :: exif_dict where
  "sample_exif =
     [''0th'' \<mapsto> [ImageIFD_Model \<mapsto> ExBytes ''X100'', ImageIFD_Software \<mapsto> ExBytes ''Photoshop''],
      ''Exif'' \<mapsto> [ExifIFD_DateTimeOriginal \<mapsto> ExBytes ''2020:01:01 10:00:00'',
                   ExifIFD_DateTimeDigitized \<mapsto> ExBytes ''2021:05:05 12:00:00'']]"

definition sample_env :: env where
  "sample_env =
     \<lparr>b64decode = (\<lambda>s. if s = ''/9j/2Q=='' then Inr sample_bytes
                        else Inl (ValueError ''Incorrect padding'')),
      pil_open = (\<lambda>d. if d = sample_bytes then Inr sample_image
                       else Inl (OtherException ''cannot identify image file'')),
      pil_verify = (\<lambda>_. Inr ()),
      vision_web_detection = (\<lambda>_. Inr sample_detection),
      vertex_predict = (\<lambda>_ _. Inr sample_prediction),
      piexif_load = (\<lambda>_. Inr sample_exif),
      utf8_decode_ignore = filter (\<lambda>c. (of_char c :: nat) < 128),
      json_render = (\<lambda>_. Inr ())\<rparr>"

text \<open>An image whose \<^verbatim>\<open>info\<close> holds an EXIF block, and environments around it.\<close>

definition exif_image :: pil_image where
  "exif_image = \<lparr>format = Some ''JPEG'', info = [''exif'' \<mapsto> ''Exif'']\<rparr>"

definition exif_env :: env where
  "exif_env = sample_env\<lparr>pil_open := (\<lambda>d. if d = sample_bytes then Inr exif_image
                       else Inl (OtherException ''cannot identify image file''))\<rparr>"

definition broken_exif_env :: env where
  "broken_exif_env =
     exif_env\<lparr>piexif_load := (\<lambda>_. Inl (OtherException ''unpack requires a buffer of 2 bytes''))\<rparr>"

definition int_tag_env :: env where
  "int_tag_env =
     exif_env\<lparr>piexif_load := (\<lambda>_. Inr [''0th'' \<mapsto> [ImageIFD_Model \<mapsto> ExInt 5]])\<rparr>"

definition empty_software_exif :: exif_dict where
  "empty_software_exif =
     [''0th'' \<mapsto> [ImageIFD_Software \<mapsto> ExBytes ''''],
      ''Exif'' \<mapsto> [ExifIFD_DateTimeOriginal \<mapsto> ExBytes '''',
                   ExifIFD_DateTimeDigitized \<mapsto> ExBytes ''2021:05:05 12:00:00'']]"

definition empty_software_env :: env where
  "empty_software_env = exif_env\<lparr>piexif_load := (\<lambda>_. Inr empty_software_exif)\<rparr>"

text \<open>A web detection that reports partial matches only.\<close>

definition partial_only_detection :: web_detection where
  "partial_only_detection =
     \<lparr>full_matching_images = [],
      partial_matching_images = [\<lparr>url = ''https://example.com/b.jpg''\<rparr>]\<rparr>"

definition partial_only_env :: env where
  "partial_only_env = sample_env\<lparr>vision_web_detection := (\<lambda>_. Inr partial_only_detection)\<rparr>"

text \<open>
  A base64 decoder for the texts that repeat the letter A, four letters to three zero
  bytes, and a Pillow that opens whatever it is given.
\<close>

definition oversized_env :: env where
  "oversized_env =
     sample_env\<lparr>b64decode := (\<lambda>s. Inr (replicate (length s div 4 * 3) (CHR 0x00))),
                pil_open := (\<lambda>_. Inr sample_image)\<rparr>"

text \<open>A web-detection service that is down.\<close>

definition unavailable_env :: env where
  "unavailable_env =
     sample_env\<lparr>vision_web_detection := (\<lambda>_. Inl (OtherException ''503 Service Unavailable''))\<rparr>"

section \<open>Properties\<close>

subsection \<open>Sequencing and handlers\<close>

lemma bnd_simps [simp]:
  "bnd (Inl e, t) f = (Inl e, t)"
  "bnd (Inr x, t) f = (fst (f x), t @ snd (f x))"
  by (simp_all add: bnd_def split: prod.splits)

lemma try_except_simps [simp]:
  "try_except (Inl e, t) h = (fst (h e), t @ snd (h e))"
  "try_except (Inr x, t) h = (Inr x, t)"
  by (simp_all add: try_except_def split: prod.splits)

lemmas io_defs = ret_def throw_def log_info_def log_error_def call_def

lemma bnd_pair:
  "bnd (r, t) f = (case r of Inl e \<Rightarrow> (Inl e, t) | Inr x \<Rightarrow> (fst (f x), t @ snd (f x)))"
  by (cases r) simp_all

lemma try_except_pair:
  "try_except (r, t) h = (case r of Inl e \<Rightarrow> (fst (h e), t @ snd (h e)) | Inr x \<Rightarrow> (Inr x, t))"
  by (cases r) simp_all

lemma snd_bnd_prefix: "\<exists>rest. snd (bnd m f) = snd m @ rest"
proof (cases m)
  case (Pair r t)
  then show ?thesis by (cases r) simp_all
qed

lemma snd_try_except_prefix: "\<exists>rest. snd (try_except m h) = snd m @ rest"
proof (cases m)
  case (Pair r t)
  then show ?thesis by (cases r) simp_all
qed

lemma snd_bnd_log_info: "snd (bnd (log_info m) f) = LogInfo m # snd (f ())"
  by (simp add: log_info_def)

lemma str_nat_MAX: "str_nat MAX_IMAGE_SIZE = ''1500000''"
  by (simp add: MAX_IMAGE_SIZE_def str_nat.simps digit_char_def)

subsection \<open>Validation\<close>

text \<open>Every failure of the validation is a \<^verbatim>\<open>ValueError\<close> that the outer handler built.\<close>

lemma validate_image_error_prefix:
  assumes "fst (validate_image env s) = Inl e"
  shows "\<exists>m. e = ValueError (''Invalid image data: '' @ m)"
  using assms
  by (auto simp add: validate_image_def io_defs Let_def bnd_pair try_except_pair
      split: sum.splits if_splits)

lemma validate_image_no_strategy:
  "\<not> list_ex strategy_event (snd (validate_image env s))"
  by (auto simp add: validate_image_def io_defs Let_def bnd_pair try_except_pair
      split: sum.splits if_splits)

text \<open>
  C8: when the text, with its newlines and carriage returns removed and its ends
  stripped, fails to base64-decode, the validation fails with the invalid-payload error:
  the \<^verbatim>\<open>ValueError\<close> whose message is \<^verbatim>\<open>Invalid image data:\<close> followed by the decoder's
  message. Nothing but the decoder has been called by then.
\<close>

theorem validate_image_malformed_base64:
  assumes "b64decode env (py_strip (py_remove (CHR 0x0D) (py_remove (CHR 0x0A) base64_string)))
             = Inl e"
  shows "validate_image env base64_string =
           (Inl (ValueError (''Invalid image data: '' @ exn_str e)),
            [LogInfo ''Starting image validation'',
             Ext (B64decode (py_strip (py_remove (CHR 0x0D) (py_remove (CHR 0x0A) base64_string)))),
             LogError (''Image validation failed: '' @ exn_str e)])"
  using assms by (simp add: validate_image_def io_defs Let_def bnd_pair)

theorem validate_image_malformed_base64_witness:
  "b64decode sample_env
     (py_strip (py_remove (CHR 0x0D) (py_remove (CHR 0x0A) ('' ab'' @ [CHR 0x0A] @ ''c ''))))
     = Inl (ValueError ''Incorrect padding'')
   \<and> fst (validate_image sample_env ('' ab'' @ [CHR 0x0A] @ ''c ''))
       = Inl (ValueError ''Invalid image data: Incorrect padding'')"
proof -
  have h: "b64decode sample_env
      (py_strip (py_remove (CHR 0x0D) (py_remove (CHR 0x0A) ('' ab'' @ [CHR 0x0A] @ ''c ''))))
      = Inl (ValueError ''Incorrect padding'')"
    by (simp add: sample_env_def py_strip_def py_remove_def py_isspace_def)
  from validate_image_malformed_base64 [OF h] h show ?thesis
    by simp
qed

text \<open>
  C4: when the decoded payload is longer than 1,500,000 bytes, the validation fails with
  the payload-too-large error, the \<^verbatim>\<open>ValueError\<close> whose message names the size and the
  limit, whatever Pillow would make of the bytes: the size is checked before the image is
  parsed, and the run holds no call to Pillow.
\<close>

theorem validate_image_payload_too_large:
  assumes "b64decode env (py_strip (py_remove (CHR 0x0D) (py_remove (CHR 0x0A) base64_string)))
             = Inr image_data"
    and "length image_data > 1500000"
  shows "validate_image env base64_string =
           (Inl (ValueError (''Invalid image data: Image size ('' @ str_nat (length image_data)
                   @ '' bytes) exceeds maximum allowed size of 1500000 bytes'')),
            [LogInfo ''Starting image validation'',
             Ext (B64decode (py_strip (py_remove (CHR 0x0D) (py_remove (CHR 0x0A) base64_string)))),
             LogInfo (''Image size: '' @ str_nat (length image_data) @ '' bytes''),
             LogError (''Image validation failed: Image size ('' @ str_nat (length image_data)
                   @ '' bytes) exceeds maximum allowed size of 1500000 bytes'')])
         \<and> \<not> list_ex parsing_event (snd (validate_image env base64_string))"
  using assms
  by (simp add: validate_image_def io_defs Let_def bnd_pair str_nat_MAX)
     (simp add: MAX_IMAGE_SIZE_def)

theorem validate_image_payload_too_large_witness:
  "b64decode oversized_env
     (py_strip (py_remove (CHR 0x0D) (py_remove (CHR 0x0A) (replicate 2000004 (CHR ''A'')))))
     = Inr (replicate 1500003 (CHR 0x00))
   \<and> length (replicate 1500003 (CHR 0x00)) > 1500000
   \<and> pil_open oversized_env (replicate 1500003 (CHR 0x00)) = Inr sample_image
   \<and> fst (validate_image oversized_env (replicate 2000004 (CHR ''A'')))
       = Inl (ValueError ''Invalid image data: Image size (1500003 bytes) exceeds maximum allowed size of 1500000 bytes'')
   \<and> \<not> list_ex parsing_event (snd (validate_image oversized_env (replicate 2000004 (CHR ''A''))))"
proof -
  have c: "py_strip (py_remove (CHR 0x0D) (py_remove (CHR 0x0A) (replicate 2000004 (CHR ''A''))))
             = replicate 2000004 (CHR ''A'')"
    by (simp add: py_strip_def py_remove_def py_isspace_def)
  have h: "b64decode oversized_env
      (py_strip (py_remove (CHR 0x0D) (py_remove (CHR 0x0A) (replicate 2000004 (CHR ''A'')))))
      = Inr (replicate 1500003 (CHR 0x00))"
    unfolding c by (simp add: oversized_env_def)
  have l: "length (replicate 1500003 (CHR 0x00)) > 1500000"
    by simp
  have n: "str_nat 1500003 = ''1500003''"
    by (simp add: str_nat.simps digit_char_def)
  have p: "pil_open oversized_env (replicate 1500003 (CHR 0x00)) = Inr sample_image"
    by (simp add: oversized_env_def)
  from validate_image_payload_too_large [OF h l] h l n p show ?thesis
    by simp
qed

subsection \<open>Web detection\<close>

text \<open>
  C1: for every response of the web-detection service, the result has \<^verbatim>\<open>is_fraud\<close> true
  exactly when the list of full matches is not empty, and \<^verbatim>\<open>matching_images_count\<close> is
  the length of that list; a response without full matches gives \<^verbatim>\<open>is_fraud\<close> false and
  the count 0, whatever its partial matches.
\<close>

theorem process_web_detection_fraud_iff_full_match:
  assumes "vision_web_detection env image_data = Inr wd"
  shows "\<exists>result. fst (process_web_detection env image_data) = Inr result
     \<and> map_of result ''is_fraud'' = Some (PBool (full_matching_images wd \<noteq> []))
     \<and> map_of result ''matching_images_count''
         = Some (PInt (int (length (full_matching_images wd))))
     \<and> (full_matching_images wd = [] \<longrightarrow>
          map_of result ''is_fraud'' = Some (PBool False)
          \<and> map_of result ''matching_images_count'' = Some (PInt 0))"
  using assms by (simp add: process_web_detection_def io_defs Let_def)

theorem process_web_detection_fraud_iff_full_match_witness:
  "vision_web_detection partial_only_env sample_bytes = Inr partial_only_detection
   \<and> full_matching_images partial_only_detection = []
   \<and> partial_matching_images partial_only_detection \<noteq> []
   \<and> (\<exists>result. fst (process_web_detection partial_only_env sample_bytes) = Inr result
        \<and> map_of result ''is_fraud'' = Some (PBool False)
        \<and> map_of result ''matching_images_count'' = Some (PInt 0))
   \<and> vision_web_detection sample_env sample_bytes = Inr sample_detection
   \<and> length (full_matching_images sample_detection) = 1
   \<and> (\<exists>result. fst (process_web_detection sample_env sample_bytes) = Inr result
        \<and> map_of result ''is_fraud'' = Some (PBool True)
        \<and> map_of result ''matching_images_count'' = Some (PInt 1))"
proof -
  have h: "vision_web_detection partial_only_env sample_bytes = Inr partial_only_detection"
    by (simp add: partial_only_env_def)
  have e: "full_matching_images partial_only_detection = []"
    and p: "partial_matching_images partial_only_detection \<noteq> []"
    by (simp_all add: partial_only_detection_def)
  have h': "vision_web_detection sample_env sample_bytes = Inr sample_detection"
    by (simp add: sample_env_def)
  have f: "length (full_matching_images sample_detection) = 1"
    by (simp add: sample_detection_def)
  from f have f': "full_matching_images sample_detection \<noteq> []"
    by auto
  from process_web_detection_fraud_iff_full_match [OF h] e
  have 1: "\<exists>result. fst (process_web_detection partial_only_env sample_bytes) = Inr result
        \<and> map_of result ''is_fraud'' = Some (PBool False)
        \<and> map_of result ''matching_images_count'' = Some (PInt 0)"
    by auto
  from process_web_detection_fraud_iff_full_match [OF h'] f f'
  have 2: "\<exists>result. fst (process_web_detection sample_env sample_bytes) = Inr result
        \<and> map_of result ''is_fraud'' = Some (PBool True)
        \<and> map_of result ''matching_images_count'' = Some (PInt 1)"
    by auto
  from h e p 1 h' f 2 show ?thesis
    by blast
qed

text \<open>Every failure of a remote strategy is a \<^verbatim>\<open>ValueError\<close> that its handler built.\<close>

lemma process_web_detection_error:
  assumes "fst (process_web_detection env d) = Inl e"
  shows "\<exists>m. e = ValueError (''Web detection failed: '' @ m)"
  using assms
  by (auto simp add: process_web_detection_def io_defs Let_def bnd_pair try_except_pair
      split: sum.splits)

lemma classify_image_error:
  assumes "fst (classify_image env c) = Inl e"
  shows "\<exists>m. e = ValueError (''Classification failed: '' @ m)"
proof -
  obtain r t where b: "bnd (log_info ''Starting image classification'') (\<lambda>_.
        bnd (call (Predict c)
               (vertex_predict env (PROJECT, LOCATION, ENDPOINT_ID) c)) (\<lambda>response.
        bnd (convert_predictions (predictions response)) (\<lambda>predictions.
        bnd (log_info ''Classification completed successfully'') (\<lambda>_.
        ret [(''deployed_model_id'', PStr (deployed_model_id response)),
             (''model_version_id'', PStr (model_version_id response)),
             (''model_display_name'', PStr (model_display_name response)),
             (''predictions'', PList (map PDict predictions))])))) = (r, t)"
    by (meson surj_pair)
  with assms show ?thesis
    unfolding classify_image_def b
    by (cases r) (auto simp add: io_defs)
qed

subsection \<open>EXIF analysis\<close>

lemma decode_cases:
  "decode env v =
     (case v of
        ExBytes b \<Rightarrow> (Inr (utf8_decode_ignore env b), [])
      | ExInt _ \<Rightarrow>
          (Inl (OtherException
                 (py_quote ''int'' @ '' object has no attribute '' @ py_quote ''decode'')), [])
      | ExTuple _ \<Rightarrow>
          (Inl (OtherException
                 (py_quote ''tuple'' @ '' object has no attribute '' @ py_quote ''decode'')), []))"
  by (cases v) (simp_all add: io_defs)

lemma is_bytes_iff: "is_bytes v \<longleftrightarrow> (\<exists>b. v = ExBytes b)"
  by (cases v) simp_all

lemma analyze_exif_returns:
  "\<exists>result. fst (analyze_exif env pil_image) = Inr result"
  by (auto simp add: analyze_exif_def io_defs Let_def bnd_pair try_except_pair decode_cases
      split: sum.splits option.splits exif_value.splits)

lemma analyze_exif_load_failure:
  assumes "info pil_image ''exif'' = Some raw" and "piexif_load env raw = Inl e"
  shows "analyze_exif env pil_image =
           (Inr [(''error'', PStr (''EXIF analysis failed: '' @ exn_str e))],
            [LogInfo ''Starting EXIF analysis'', Ext (Piexif_load raw),
             LogError (''EXIF analysis failed: '' @ exn_str e)])"
  using assms by (simp add: analyze_exif_def io_defs bnd_pair)

lemma analyze_exif_loaded:
  assumes "info pil_image ''exif'' = Some raw"
    and "piexif_load env raw = Inr exif_data"
    and "exif_get exif_data ''0th'' ImageIFD_Model = ExBytes model_bytes"
    and "exif_get exif_data ''0th'' ImageIFD_Software = ExBytes software_bytes"
    and "exif_get exif_data ''Exif'' ExifIFD_DateTimeOriginal = ExBytes original_bytes"
    and "exif_get exif_data ''Exif'' ExifIFD_DateTimeDigitized = ExBytes digitized_bytes"
  shows "fst (analyze_exif env pil_image) =
           Inr [(''camera_model'', PStr (utf8_decode_ignore env model_bytes)),
                (''software'', PStr (utf8_decode_ignore env software_bytes)),
                (''datetime_original'', PStr (utf8_decode_ignore env original_bytes)),
                (''datetime_digitized'', PStr (utf8_decode_ignore env digitized_bytes)),
                (''warnings'', PList (map PStr
                   ((if utf8_decode_ignore env software_bytes \<noteq> []
                     then [''Image edited with software: '' @ utf8_decode_ignore env software_bytes]
                     else [])
                    @ (if utf8_decode_ignore env original_bytes \<noteq> []
                          \<and> utf8_decode_ignore env digitized_bytes \<noteq> []
                          \<and> utf8_decode_ignore env original_bytes
                              \<noteq> utf8_decode_ignore env digitized_bytes
                       then [''Original date and digitized date do not match.''] else []))))]"
  using assms by (simp add: analyze_exif_def io_defs bnd_pair Let_def)

lemma analyze_exif_bad_tag:
  assumes "info pil_image ''exif'' = Some raw"
    and "piexif_load env raw = Inr exif_data"
    and "\<not> (is_bytes (exif_get exif_data ''0th'' ImageIFD_Model)
            \<and> is_bytes (exif_get exif_data ''0th'' ImageIFD_Software)
            \<and> is_bytes (exif_get exif_data ''Exif'' ExifIFD_DateTimeOriginal)
            \<and> is_bytes (exif_get exif_data ''Exif'' ExifIFD_DateTimeDigitized))"
  shows "\<exists>m. fst (analyze_exif env pil_image) =
           Inr [(''error'', PStr (''EXIF analysis failed: '' @ m))]"
  using assms
  by (auto simp add: analyze_exif_def io_defs bnd_pair try_except_pair decode_cases Let_def
      split: exif_value.splits)

text \<open>
  C6: for an image whose \<^verbatim>\<open>info\<close> holds no EXIF block, the inspection returns the
  mapping with the four string fields empty and the one warning
  \<^verbatim>\<open>No EXIF data found in image\<close>; it is a result, not an error.
\<close>

theorem analyze_exif_no_exif_block:
  assumes "info pil_image ''exif'' = None"
  shows "fst (analyze_exif env pil_image) =
           Inr [(''camera_model'', PStr ''''),
                (''software'', PStr ''''),
                (''datetime_original'', PStr ''''),
                (''datetime_digitized'', PStr ''''),
                (''warnings'', PList [PStr ''No EXIF data found in image''])]"
  using assms by (simp add: analyze_exif_def io_defs bnd_pair)

theorem analyze_exif_no_exif_block_witness:
  "info sample_image ''exif'' = None
   \<and> fst (analyze_exif sample_env sample_image) =
           Inr [(''camera_model'', PStr ''''),
                (''software'', PStr ''''),
                (''datetime_original'', PStr ''''),
                (''datetime_digitized'', PStr ''''),
                (''warnings'', PList [PStr ''No EXIF data found in image''])]"
proof -
  have h: "info sample_image ''exif'' = None"
    by (simp add: sample_image_def)
  from analyze_exif_no_exif_block [OF h] h show ?thesis
    by simp
qed

text \<open>
  C7, as the code has it: for an image whose EXIF block loads and whose four tags, where
  present, hold bytes, the warnings are, in this order: the warning
  \<^verbatim>\<open>Image edited with software:\<close> followed by the software text, when the decoded
  software text is not empty; and the warning that the original and the digitized dates
  do not match, when both decoded timestamps are not empty and differ. No other warning
  appears, so equal timestamps give no mismatch warning, and none, one or both warnings
  may be there.
\<close>

theorem analyze_exif_warnings:
  assumes "info pil_image ''exif'' = Some raw"
    and "piexif_load env raw = Inr exif_data"
    and "exif_get exif_data ''0th'' ImageIFD_Model = ExBytes model_bytes"
    and "exif_get exif_data ''0th'' ImageIFD_Software = ExBytes software_bytes"
    and "exif_get exif_data ''Exif'' ExifIFD_DateTimeOriginal = ExBytes original_bytes"
    and "exif_get exif_data ''Exif'' ExifIFD_DateTimeDigitized = ExBytes digitized_bytes"
    and "software = utf8_decode_ignore env software_bytes"
    and "datetime_original = utf8_decode_ignore env original_bytes"
    and "datetime_digitized = utf8_decode_ignore env digitized_bytes"
  shows "fst (analyze_exif env pil_image) =
           Inr [(''camera_model'', PStr (utf8_decode_ignore env model_bytes)),
                (''software'', PStr software),
                (''datetime_original'', PStr datetime_original),
                (''datetime_digitized'', PStr datetime_digitized),
                (''warnings'', PList (map PStr
                   ((if software \<noteq> [] then [''Image edited with software: '' @ software] else [])
                    @ (if datetime_original \<noteq> [] \<and> datetime_digitized \<noteq> []
                          \<and> datetime_original \<noteq> datetime_digitized
                       then [''Original date and digitized date do not match.''] else []))))]"
  unfolding assms(7-9) by (rule analyze_exif_loaded [OF assms(1-6)])

theorem analyze_exif_warnings_witness:
  "info exif_image ''exif'' = Some ''Exif''
   \<and> piexif_load exif_env ''Exif'' = Inr sample_exif
   \<and> exif_get sample_exif ''0th'' ImageIFD_Model = ExBytes ''X100''
   \<and> exif_get sample_exif ''0th'' ImageIFD_Software = ExBytes ''Photoshop''
   \<and> exif_get sample_exif ''Exif'' ExifIFD_DateTimeOriginal = ExBytes ''2020:01:01 10:00:00''
   \<and> exif_get sample_exif ''Exif'' ExifIFD_DateTimeDigitized = ExBytes ''2021:05:05 12:00:00''
   \<and> utf8_decode_ignore exif_env ''Photoshop'' = ''Photoshop''
   \<and> utf8_decode_ignore exif_env ''2020:01:01 10:00:00'' = ''2020:01:01 10:00:00''
   \<and> utf8_decode_ignore exif_env ''2021:05:05 12:00:00'' = ''2021:05:05 12:00:00''
   \<and> fst (analyze_exif exif_env exif_image) =
           Inr [(''camera_model'', PStr ''X100''),
                (''software'', PStr ''Photoshop''),
                (''datetime_original'', PStr ''2020:01:01 10:00:00''),
                (''datetime_digitized'', PStr ''2021:05:05 12:00:00''),
                (''warnings'', PList [PStr ''Image edited with software: Photoshop'',
                                      PStr ''Original date and digitized date do not match.''])]"
proof -
  have i: "info exif_image ''exif'' = Some ''Exif''"
    by (simp add: exif_image_def)
  have l: "piexif_load exif_env ''Exif'' = Inr sample_exif"
    by (simp add: exif_env_def sample_env_def)
  have m: "exif_get sample_exif ''0th'' ImageIFD_Model = ExBytes ''X100''"
    and s: "exif_get sample_exif ''0th'' ImageIFD_Software = ExBytes ''Photoshop''"
    and o: "exif_get sample_exif ''Exif'' ExifIFD_DateTimeOriginal = ExBytes ''2020:01:01 10:00:00''"
    and d: "exif_get sample_exif ''Exif'' ExifIFD_DateTimeDigitized = ExBytes ''2021:05:05 12:00:00''"
    by (simp_all add: exif_get_def sample_exif_def ImageIFD_Model_def ImageIFD_Software_def
        ExifIFD_DateTimeOriginal_def ExifIFD_DateTimeDigitized_def)
  have u0: "utf8_decode_ignore exif_env ''X100'' = ''X100''"
    and u1: "utf8_decode_ignore exif_env ''Photoshop'' = ''Photoshop''"
    and u2: "utf8_decode_ignore exif_env ''2020:01:01 10:00:00'' = ''2020:01:01 10:00:00''"
    and u3: "utf8_decode_ignore exif_env ''2021:05:05 12:00:00'' = ''2021:05:05 12:00:00''"
    by (simp_all add: exif_env_def sample_env_def)
  from analyze_exif_warnings [OF i l m s o d u1 [symmetric] u2 [symmetric] u3 [symmetric]]
  have "fst (analyze_exif exif_env exif_image) =
           Inr [(''camera_model'', PStr ''X100''),
                (''software'', PStr ''Photoshop''),
                (''datetime_original'', PStr ''2020:01:01 10:00:00''),
                (''datetime_digitized'', PStr ''2021:05:05 12:00:00''),
                (''warnings'', PList [PStr ''Image edited with software: Photoshop'',
                                      PStr ''Original date and digitized date do not match.''])]"
    by (simp add: u0)
  with i l m s o d u1 u2 u3 show ?thesis
    by simp
qed

text \<open>
  C7 as stated fails on a tag that is present and empty: the software tag is there and no
  warning names it; both timestamp tags are there and differ, and no warning says so.
\<close>

theorem analyze_exif_present_tags_counterexample:
  "info exif_image ''exif'' = Some ''Exif''
   \<and> piexif_load empty_software_env ''Exif'' = Inr empty_software_exif
   \<and> tag_present empty_software_exif ''0th'' ImageIFD_Software
   \<and> tag_present empty_software_exif ''Exif'' ExifIFD_DateTimeOriginal
   \<and> tag_present empty_software_exif ''Exif'' ExifIFD_DateTimeDigitized
   \<and> exif_get empty_software_exif ''Exif'' ExifIFD_DateTimeOriginal
       \<noteq> exif_get empty_software_exif ''Exif'' ExifIFD_DateTimeDigitized
   \<and> fst (analyze_exif empty_software_env exif_image) =
           Inr [(''camera_model'', PStr ''''),
                (''software'', PStr ''''),
                (''datetime_original'', PStr ''''),
                (''datetime_digitized'', PStr ''2021:05:05 12:00:00''),
                (''warnings'', PList [])]"
  by (simp add: analyze_exif_def io_defs bnd_pair Let_def exif_image_def empty_software_env_def
      exif_env_def sample_env_def empty_software_exif_def tag_present_def exif_get_def
      ImageIFD_Model_def ImageIFD_Software_def ExifIFD_DateTimeOriginal_def
      ExifIFD_DateTimeDigitized_def)

text \<open>
  C10: the inspection returns on every image, and what it returns is one of two mappings:
  the five keys \<^verbatim>\<open>camera_model\<close>, \<^verbatim>\<open>software\<close>, \<^verbatim>\<open>datetime_original\<close>,
  \<^verbatim>\<open>datetime_digitized\<close>, with strings, and \<^verbatim>\<open>warnings\<close>, with a list of strings that has
  exactly one element without an EXIF block and at most two with one; or, with an EXIF
  block only, the single key \<^verbatim>\<open>error\<close> with a string. It never raises.
\<close>

theorem analyze_exif_two_shapes:
  "(\<exists>camera_model software datetime_original datetime_digitized warnings.
      fst (analyze_exif env pil_image) =
        Inr [(''camera_model'', PStr camera_model),
             (''software'', PStr software),
             (''datetime_original'', PStr datetime_original),
             (''datetime_digitized'', PStr datetime_digitized),
             (''warnings'', PList (map PStr warnings))]
      \<and> (if info pil_image ''exif'' = None then length warnings = 1 else length warnings \<le> 2))
   \<or> (\<exists>message. info pil_image ''exif'' \<noteq> None
         \<and> fst (analyze_exif env pil_image) = Inr [(''error'', PStr message)])"
proof (cases "info pil_image ''exif''")
  case None
  then have "fst (analyze_exif env pil_image) =
           Inr [(''camera_model'', PStr ''''),
                (''software'', PStr ''''),
                (''datetime_original'', PStr ''''),
                (''datetime_digitized'', PStr ''''),
                (''warnings'', PList (map PStr [''No EXIF data found in image'']))]
        \<and> (if info pil_image ''exif'' = None
            then length [''No EXIF data found in image''] = 1
            else length [''No EXIF data found in image''] \<le> 2)"
    by (simp add: analyze_exif_def io_defs bnd_pair)
  then show ?thesis by blast
next
  case (Some raw)
  show ?thesis
  proof (cases "piexif_load env raw")
    case (Inl e)
    with Some show ?thesis
      by (simp add: analyze_exif_load_failure)
  next
    case (Inr exif_data)
    show ?thesis
    proof (cases "is_bytes (exif_get exif_data ''0th'' ImageIFD_Model)
            \<and> is_bytes (exif_get exif_data ''0th'' ImageIFD_Software)
            \<and> is_bytes (exif_get exif_data ''Exif'' ExifIFD_DateTimeOriginal)
            \<and> is_bytes (exif_get exif_data ''Exif'' ExifIFD_DateTimeDigitized)")
      case True
      then obtain b1 b2 b3 b4 where
        "exif_get exif_data ''0th'' ImageIFD_Model = ExBytes b1"
        "exif_get exif_data ''0th'' ImageIFD_Software = ExBytes b2"
        "exif_get exif_data ''Exif'' ExifIFD_DateTimeOriginal = ExBytes b3"
        "exif_get exif_data ''Exif'' ExifIFD_DateTimeDigitized = ExBytes b4"
        by (auto simp add: is_bytes_iff)
      from analyze_exif_loaded [OF Some Inr this]
      have "\<exists>camera_model software datetime_original datetime_digitized warnings.
          fst (analyze_exif env pil_image) =
            Inr [(''camera_model'', PStr camera_model),
             (''software'', PStr software),
             (''datetime_original'', PStr datetime_original),
             (''datetime_digitized'', PStr datetime_digitized),
             (''warnings'', PList (map PStr warnings))]
          \<and> length warnings \<le> 2"
        by (intro exI conjI) (assumption, simp)
      with Some show ?thesis by simp
    next
      case False
      from analyze_exif_bad_tag [OF Some Inr False] Some show ?thesis
        by auto
    qed
  qed
qed

theorem analyze_exif_two_shapes_witness:
  "info sample_image ''exif'' = None
   \<and> fst (analyze_exif sample_env sample_image) =
        Inr [(''camera_model'', PStr ''''),
             (''software'', PStr ''''),
             (''datetime_original'', PStr ''''),
             (''datetime_digitized'', PStr ''''),
             (''warnings'', PList (map PStr [''No EXIF data found in image'']))]
   \<and> info exif_image ''exif'' \<noteq> None
   \<and> fst (analyze_exif broken_exif_env exif_image) =
        Inr [(''error'', PStr ''EXIF analysis failed: unpack requires a buffer of 2 bytes'')]
   \<and> ((\<exists>camera_model software datetime_original datetime_digitized warnings.
         fst (analyze_exif exif_env exif_image) =
           Inr [(''camera_model'', PStr camera_model),
                (''software'', PStr software),
                (''datetime_original'', PStr datetime_original),
                (''datetime_digitized'', PStr datetime_digitized),
                (''warnings'', PList (map PStr warnings))]
         \<and> length warnings \<le> 2)
       \<or> (\<exists>message. fst (analyze_exif exif_env exif_image) = Inr [(''error'', PStr message)]))"
proof -
  have n: "info sample_image ''exif'' = None"
    by (simp add: sample_image_def)
  have i: "info exif_image ''exif'' \<noteq> None"
    by (simp add: exif_image_def)
  have a: "fst (analyze_exif sample_env sample_image) =
        Inr [(''camera_model'', PStr ''''),
             (''software'', PStr ''''),
             (''datetime_original'', PStr ''''),
             (''datetime_digitized'', PStr ''''),
             (''warnings'', PList (map PStr [''No EXIF data found in image'']))]"
    using n by (simp add: analyze_exif_def io_defs bnd_pair)
  have b: "fst (analyze_exif broken_exif_env exif_image) =
        Inr [(''error'', PStr ''EXIF analysis failed: unpack requires a buffer of 2 bytes'')]"
    by (simp add: analyze_exif_def io_defs bnd_pair exif_image_def broken_exif_env_def)
  from analyze_exif_two_shapes [of exif_env exif_image] i
  have c: "(\<exists>camera_model software datetime_original datetime_digitized warnings.
         fst (analyze_exif exif_env exif_image) =
           Inr [(''camera_model'', PStr camera_model),
                (''software'', PStr software),
                (''datetime_original'', PStr datetime_original),
                (''datetime_digitized'', PStr datetime_digitized),
                (''warnings'', PList (map PStr warnings))]
         \<and> length warnings \<le> 2)
       \<or> (\<exists>message. fst (analyze_exif exif_env exif_image) = Inr [(''error'', PStr message)])"
    by (simp only: if_False) blast
  from n a i b c show ?thesis
    by blast
qed

subsection \<open>The entry record of a strategy\<close>

text \<open>
  Each strategy logs on entry, before anything else: a run in which a strategy was
  invoked holds the entry record of that strategy, which is what \<open>strategy_event\<close> looks
  for.
\<close>

lemma try_except_log_info_starts:
  "\<exists>rest. snd (try_except (bnd (log_info m) f) h) = LogInfo m # rest"
proof -
  obtain r where "snd (try_except (bnd (log_info m) f) h) = snd (bnd (log_info m) f) @ r"
    using snd_try_except_prefix by blast
  then have "snd (try_except (bnd (log_info m) f) h) = LogInfo m # (snd (f ()) @ r)"
    by (simp only: snd_bnd_log_info append_Cons)
  then show ?thesis ..
qed

lemma process_web_detection_starts:
  "\<exists>rest. snd (process_web_detection env image_data) = LogInfo ''Starting web detection'' # rest"
  unfolding process_web_detection_def by (rule try_except_log_info_starts)

lemma classify_image_starts:
  "\<exists>rest. snd (classify_image env encoded_content)
            = LogInfo ''Starting image classification'' # rest"
  unfolding classify_image_def by (rule try_except_log_info_starts)

lemma analyze_exif_starts:
  "\<exists>rest. snd (analyze_exif env pil_image) = LogInfo ''Starting EXIF analysis'' # rest"
  unfolding analyze_exif_def by (rule try_except_log_info_starts)

subsection \<open>Dispatch\<close>

lemma start_not_strategy:
  "\<not> strategy_event (LogInfo (''Starting analysis of type: '' @ d))"
  by simp

lemma analyze_trace_prefix:
  "\<exists>rest. snd (analyze env s d) =
     LogInfo (''Starting analysis of type: '' @ d) # snd (validate_image env s) @ rest"
proof -
  let ?k = "\<lambda>(image_data, pil_image).
        let analysis_methods =
              [(''web_search'', process_web_detection env image_data),
               (''classification'', classify_image env s),
               (''exif'', analyze_exif env pil_image)]
        in
        case map_of analysis_methods d of
          None \<Rightarrow> throw (ValueError (''Invalid analysis type: '' @ d))
        | Some method \<Rightarrow>
            bnd method (\<lambda>result.
            bnd (log_info (''Analysis completed successfully for type: '' @ d)) (\<lambda>_.
            ret result))"
  let ?h = "\<lambda>e. bnd (log_error (''Analysis failed: '' @ exn_str e)) (\<lambda>_. throw e)"
  let ?m = "bnd (log_info (''Starting analysis of type: '' @ d))
                  (\<lambda>_. bnd (validate_image env s) ?k)"
  obtain r1 where 1: "snd (bnd (validate_image env s) ?k) = snd (validate_image env s) @ r1"
    using snd_bnd_prefix by blast
  have 2: "snd ?m = LogInfo (''Starting analysis of type: '' @ d) # snd (validate_image env s) @ r1"
    by (simp only: snd_bnd_log_info 1)
  obtain r2 where 3: "snd (try_except ?m ?h) = snd ?m @ r2"
    using snd_try_except_prefix by blast
  have "snd (analyze env s d) = snd (try_except ?m ?h)"
    by (simp only: analyze_def)
  also have "\<dots> = (LogInfo (''Starting analysis of type: '' @ d) # snd (validate_image env s) @ r1) @ r2"
    by (simp only: 3 2)
  finally have "snd (analyze env s d) =
     LogInfo (''Starting analysis of type: '' @ d) # snd (validate_image env s) @ (r1 @ r2)"
    by simp
  then show ?thesis ..
qed

lemma analyze_validation_failure:
  assumes "validate_image env s = (Inl e, t)"
  shows "analyze env s d =
           (Inl e, LogInfo (''Starting analysis of type: '' @ d) # t
                     @ [LogError (''Analysis failed: '' @ exn_str e)])"
  using assms by (simp add: analyze_def io_defs)

lemma analyze_unsupported:
  assumes "validate_image env s = (Inr v, t)"
    and "d \<notin> {''web_search'', ''classification'', ''exif''}"
  shows "analyze env s d =
           (Inl (ValueError (''Invalid analysis type: '' @ d)),
            LogInfo (''Starting analysis of type: '' @ d) # t
              @ [LogError (''Analysis failed: Invalid analysis type: '' @ d)])"
  using assms by (cases v) (simp add: analyze_def io_defs)

lemma analyze_exif_dispatch:
  assumes "validate_image env s = (Inr (image_data, pil_image), t)"
  shows "fst (analyze env s ''exif'') = fst (analyze_exif env pil_image)"
proof -
  obtain result where r: "fst (analyze_exif env pil_image) = Inr result"
    using analyze_exif_returns by blast
  then obtain t' where "analyze_exif env pil_image = (Inr result, t')"
    by (cases "analyze_exif env pil_image") simp
  with assms show ?thesis
    by (simp add: analyze_def io_defs)
qed

lemma analyze_error_is_ValueError:
  assumes "fst (analyze env s d) = Inl e"
  shows "\<exists>m. e = ValueError m"
proof -
  obtain r t where v: "validate_image env s = (r, t)"
    by (meson surj_pair)
  show ?thesis
  proof (cases r)
    case (Inl e')
    with v have "fst (validate_image env s) = Inl e'" by simp
    from validate_image_error_prefix [OF this] analyze_validation_failure [of env s e' t d]
      v Inl assms
    show ?thesis by auto
  next
    case (Inr x)
    obtain image_data pil_image where x: "x = (image_data, pil_image)"
      by (cases x)
    obtain r1 t1 where w: "process_web_detection env image_data = (r1, t1)"
      by (meson surj_pair)
    obtain r2 t2 where c: "classify_image env s = (r2, t2)"
      by (meson surj_pair)
    obtain r3 t3 where a: "analyze_exif env pil_image = (r3, t3)"
      by (meson surj_pair)
    from w process_web_detection_error [of env image_data]
    have w': "\<And>e. r1 = Inl e \<Longrightarrow> \<exists>m. e = ValueError m" by auto
    from c classify_image_error [of env s]
    have c': "\<And>e. r2 = Inl e \<Longrightarrow> \<exists>m. e = ValueError m" by auto
    from a analyze_exif_returns [of env pil_image]
    have a': "\<And>e. r3 = Inl e \<Longrightarrow> \<exists>m. e = ValueError m" by auto
    from assms v Inr x w c a w' c' a' show ?thesis
      by (auto simp add: analyze_def io_defs bnd_pair try_except_pair
          split: sum.splits if_splits)
  qed
qed

text \<open>
  C3: once the validation has returned an image, the analysis with the directive
  \<^verbatim>\<open>exif\<close> returns: its result is the result of the inspection, which never raises.
  When \<^verbatim>\<open>piexif.load\<close> raises, or when one of the four tags holds a value that is not
  bytes, the result is the mapping with the single key \<^verbatim>\<open>error\<close> and the message.
\<close>

theorem analyze_exif_directive_never_raises:
  assumes "fst (validate_image env base64_content) = Inr (image_data, pil_image)"
  shows "(\<exists>result. fst (analyze env base64_content ''exif'') = Inr result)
     \<and> fst (analyze env base64_content ''exif'') = fst (analyze_exif env pil_image)
     \<and> (\<forall>raw e. info pil_image ''exif'' = Some raw \<and> piexif_load env raw = Inl e \<longrightarrow>
          fst (analyze env base64_content ''exif'')
            = Inr [(''error'', PStr (''EXIF analysis failed: '' @ exn_str e))])
     \<and> (\<forall>raw exif_data. info pil_image ''exif'' = Some raw
            \<and> piexif_load env raw = Inr exif_data
            \<and> \<not> (is_bytes (exif_get exif_data ''0th'' ImageIFD_Model)
                  \<and> is_bytes (exif_get exif_data ''0th'' ImageIFD_Software)
                  \<and> is_bytes (exif_get exif_data ''Exif'' ExifIFD_DateTimeOriginal)
                  \<and> is_bytes (exif_get exif_data ''Exif'' ExifIFD_DateTimeDigitized)) \<longrightarrow>
          (\<exists>m. fst (analyze env base64_content ''exif'')
            = Inr [(''error'', PStr (''EXIF analysis failed: '' @ m))]))"
proof -
  from assms obtain t where "validate_image env base64_content = (Inr (image_data, pil_image), t)"
    by (cases "validate_image env base64_content") simp
  then have d: "fst (analyze env base64_content ''exif'') = fst (analyze_exif env pil_image)"
    by (rule analyze_exif_dispatch)
  show ?thesis
    unfolding d
    using analyze_exif_returns [of env pil_image]
      analyze_exif_load_failure [of pil_image _ env] analyze_exif_bad_tag [of pil_image _ env]
    by auto
qed

theorem analyze_exif_directive_never_raises_witness:
  "fst (validate_image broken_exif_env ''/9j/2Q=='') = Inr (sample_bytes, exif_image)
   \<and> info exif_image ''exif'' = Some ''Exif''
   \<and> piexif_load broken_exif_env ''Exif''
       = Inl (OtherException ''unpack requires a buffer of 2 bytes'')
   \<and> fst (analyze broken_exif_env ''/9j/2Q=='' ''exif'')
       = Inr [(''error'', PStr ''EXIF analysis failed: unpack requires a buffer of 2 bytes'')]
   \<and> fst (validate_image int_tag_env ''/9j/2Q=='') = Inr (sample_bytes, exif_image)
   \<and> piexif_load int_tag_env ''Exif'' = Inr [''0th'' \<mapsto> [ImageIFD_Model \<mapsto> ExInt 5]]
   \<and> \<not> is_bytes (exif_get [''0th'' \<mapsto> [ImageIFD_Model \<mapsto> ExInt 5]] ''0th'' ImageIFD_Model)
   \<and> (\<exists>m. fst (analyze int_tag_env ''/9j/2Q=='' ''exif'')
        = Inr [(''error'', PStr (''EXIF analysis failed: '' @ m))])"
proof -
  have v: "fst (validate_image broken_exif_env ''/9j/2Q=='') = Inr (sample_bytes, exif_image)"
    by (simp add: validate_image_def io_defs Let_def bnd_pair try_except_pair
        broken_exif_env_def exif_env_def sample_env_def py_strip_def py_remove_def
        py_isspace_def sample_bytes_def MAX_IMAGE_SIZE_def)
  have v': "fst (validate_image int_tag_env ''/9j/2Q=='') = Inr (sample_bytes, exif_image)"
    by (simp add: validate_image_def io_defs Let_def bnd_pair try_except_pair
        int_tag_env_def exif_env_def sample_env_def py_strip_def py_remove_def
        py_isspace_def sample_bytes_def MAX_IMAGE_SIZE_def)
  have i: "info exif_image ''exif'' = Some ''Exif''"
    by (simp add: exif_image_def)
  have l: "piexif_load broken_exif_env ''Exif''
       = Inl (OtherException ''unpack requires a buffer of 2 bytes'')"
    by (simp add: broken_exif_env_def)
  have l': "piexif_load int_tag_env ''Exif'' = Inr [''0th'' \<mapsto> [ImageIFD_Model \<mapsto> ExInt 5]]"
    by (simp add: int_tag_env_def)
  have b: "\<not> is_bytes (exif_get [''0th'' \<mapsto> [ImageIFD_Model \<mapsto> ExInt 5]] ''0th'' ImageIFD_Model)"
    by (simp add: exif_get_def)
  from analyze_exif_directive_never_raises [OF v] i l
  have 1: "fst (analyze broken_exif_env ''/9j/2Q=='' ''exif'')
       = Inr [(''error'', PStr ''EXIF analysis failed: unpack requires a buffer of 2 bytes'')]"
    by auto
  from analyze_exif_directive_never_raises [OF v'] i l' b
  have 2: "\<exists>m. fst (analyze int_tag_env ''/9j/2Q=='' ''exif'')
        = Inr [(''error'', PStr (''EXIF analysis failed: '' @ m))]"
    by blast
  from v i l 1 v' l' b 2 show ?thesis
    by blast
qed

text \<open>
  C5, as the code has it: a directive outside \<^verbatim>\<open>web_search\<close>, \<^verbatim>\<open>classification\<close>,
  \<^verbatim>\<open>exif\<close> makes the analysis of an input that passes the validation fail with the
  unsupported-type error, the \<^verbatim>\<open>ValueError\<close> with the message
  \<^verbatim>\<open>Invalid analysis type:\<close> and the directive, after nothing but the validation and two
  log records; on an input that fails the validation, the analysis fails with the
  validation's error instead, a \<^verbatim>\<open>ValueError\<close> whose message starts with
  \<^verbatim>\<open>Invalid image data:\<close>, which is never the unsupported-type error; and on every
  input, valid or not, no strategy is invoked.
\<close>

theorem analyze_unsupported_type_after_validation:
  assumes "d \<notin> {''web_search'', ''classification'', ''exif''}"
  shows "(\<forall>v. fst (validate_image env s) = Inr v \<longrightarrow>
            analyze env s d =
              (Inl (ValueError (''Invalid analysis type: '' @ d)),
               LogInfo (''Starting analysis of type: '' @ d) # snd (validate_image env s)
                 @ [LogError (''Analysis failed: Invalid analysis type: '' @ d)]))
       \<and> (\<forall>e. fst (validate_image env s) = Inl e \<longrightarrow>
            analyze env s d =
              (Inl e,
               LogInfo (''Starting analysis of type: '' @ d) # snd (validate_image env s)
                 @ [LogError (''Analysis failed: '' @ exn_str e)])
            \<and> (\<exists>m. e = ValueError (''Invalid image data: '' @ m))
            \<and> fst (analyze env s d) \<noteq> Inl (ValueError (''Invalid analysis type: '' @ d)))
       \<and> \<not> list_ex strategy_event (snd (analyze env s d))"
proof -
  obtain r t where v: "validate_image env s = (r, t)"
    by (meson surj_pair)
  from validate_image_no_strategy [of env s] v have n: "\<not> list_ex strategy_event t"
    by simp
  show ?thesis
  proof (cases r)
    case (Inl e)
    with v have f: "fst (validate_image env s) = Inl e"
      by simp
    from validate_image_error_prefix [OF f] obtain m
      where m: "e = ValueError (''Invalid image data: '' @ m)" ..
    from v Inl have a: "analyze env s d =
           (Inl e, LogInfo (''Starting analysis of type: '' @ d) # t
                     @ [LogError (''Analysis failed: '' @ exn_str e)])"
      by (simp add: analyze_validation_failure)
    have 1: "\<forall>v. fst (validate_image env s) = Inr v \<longrightarrow>
            analyze env s d =
              (Inl (ValueError (''Invalid analysis type: '' @ d)),
               LogInfo (''Starting analysis of type: '' @ d) # snd (validate_image env s)
                 @ [LogError (''Analysis failed: Invalid analysis type: '' @ d)])"
      using f by simp
    have 2: "\<forall>e. fst (validate_image env s) = Inl e \<longrightarrow>
            analyze env s d =
              (Inl e,
               LogInfo (''Starting analysis of type: '' @ d) # snd (validate_image env s)
                 @ [LogError (''Analysis failed: '' @ exn_str e)])
            \<and> (\<exists>m. e = ValueError (''Invalid image data: '' @ m))
            \<and> fst (analyze env s d) \<noteq> Inl (ValueError (''Invalid analysis type: '' @ d))"
      using f a v m by simp
    have 3: "\<not> list_ex strategy_event (snd (analyze env s d))"
      using a n by simp
    from 1 2 3 show ?thesis
      by blast
  next
    case (Inr x)
    with v n analyze_unsupported [of env s x t d] assms show ?thesis
      by simp
  qed
qed

theorem analyze_unsupported_type_after_validation_witness:
  "''foo'' \<notin> {''web_search'', ''classification'', ''exif''}
   \<and> fst (validate_image sample_env ''/9j/2Q=='') = Inr (sample_bytes, sample_image)
   \<and> fst (analyze sample_env ''/9j/2Q=='' ''foo'') = Inl (ValueError ''Invalid analysis type: foo'')
   \<and> \<not> list_ex strategy_event (snd (analyze sample_env ''/9j/2Q=='' ''foo''))
   \<and> fst (validate_image sample_env ''abc'')
       = Inl (ValueError ''Invalid image data: Incorrect padding'')
   \<and> fst (analyze sample_env ''abc'' ''foo'')
       = Inl (ValueError ''Invalid image data: Incorrect padding'')
   \<and> fst (analyze sample_env ''abc'' ''foo'') \<noteq> Inl (ValueError ''Invalid analysis type: foo'')
   \<and> \<not> list_ex strategy_event (snd (analyze sample_env ''abc'' ''foo''))"
proof -
  have d: "''foo'' \<notin> {''web_search'', ''classification'', ''exif''}"
    by simp
  have v: "fst (validate_image sample_env ''/9j/2Q=='') = Inr (sample_bytes, sample_image)"
    by (simp add: validate_image_def io_defs Let_def bnd_pair try_except_pair
        sample_env_def py_strip_def py_remove_def py_isspace_def sample_bytes_def
        MAX_IMAGE_SIZE_def)
  have w: "fst (validate_image sample_env ''abc'')
             = Inl (ValueError ''Invalid image data: Incorrect padding'')"
    by (simp add: validate_image_def io_defs Let_def bnd_pair sample_env_def py_strip_def
        py_remove_def py_isspace_def)
  note t = analyze_unsupported_type_after_validation [OF d, of sample_env "''/9j/2Q==''"]
  from t have n: "\<not> list_ex strategy_event (snd (analyze sample_env ''/9j/2Q=='' ''foo''))"
    by blast
  from t v have "analyze sample_env ''/9j/2Q=='' ''foo'' =
              (Inl (ValueError (''Invalid analysis type: '' @ ''foo'')),
               LogInfo (''Starting analysis of type: '' @ ''foo'')
                 # snd (validate_image sample_env ''/9j/2Q=='')
                 @ [LogError (''Analysis failed: Invalid analysis type: '' @ ''foo'')])"
    by blast
  then have a: "fst (analyze sample_env ''/9j/2Q=='' ''foo'')
                  = Inl (ValueError ''Invalid analysis type: foo'')"
    by simp
  note u = analyze_unsupported_type_after_validation [OF d, of sample_env "''abc''"]
  from u have n': "\<not> list_ex strategy_event (snd (analyze sample_env ''abc'' ''foo''))"
    by blast
  from u w have "analyze sample_env ''abc'' ''foo'' =
              (Inl (ValueError ''Invalid image data: Incorrect padding''),
               LogInfo (''Starting analysis of type: '' @ ''foo'')
                 # snd (validate_image sample_env ''abc'')
                 @ [LogError (''Analysis failed: ''
                      @ exn_str (ValueError ''Invalid image data: Incorrect padding''))])"
    by blast
  then have b: "fst (analyze sample_env ''abc'' ''foo'')
                  = Inl (ValueError ''Invalid image data: Incorrect padding'')"
    by simp
  from u w have c: "fst (analyze sample_env ''abc'' ''foo'')
                  \<noteq> Inl (ValueError (''Invalid analysis type: '' @ ''foo''))"
    by blast
  then have c': "fst (analyze sample_env ''abc'' ''foo'')
                  \<noteq> Inl (ValueError ''Invalid analysis type: foo'')"
    by simp
  from d v a n w b c' n' show ?thesis
    by blast
qed

text \<open>
  C5 as stated, for every input, fails on an input that does not pass the validation:
  the analysis then fails with the validation's error, not with the unsupported-type
  error.
\<close>

theorem analyze_unsupported_type_counterexample:
  "''foo'' \<notin> {''web_search'', ''classification'', ''exif''}
   \<and> fst (analyze sample_env ''abc'' ''foo'')
       = Inl (ValueError ''Invalid image data: Incorrect padding'')
   \<and> fst (analyze sample_env ''abc'' ''foo'') \<noteq> Inl (ValueError ''Invalid analysis type: foo'')"
proof -
  have "validate_image sample_env ''abc'' =
          (Inl (ValueError ''Invalid image data: Incorrect padding''),
           [LogInfo ''Starting image validation'', Ext (B64decode ''abc''),
            LogError ''Image validation failed: Incorrect padding''])"
    by (simp add: validate_image_def io_defs Let_def bnd_pair sample_env_def py_strip_def
        py_remove_def py_isspace_def)
  from analyze_validation_failure [OF this, of "''foo''"] show ?thesis
    by simp
qed

text \<open>
  C9: the analysis validates before it looks at the directive. When the validation
  fails, the analysis fails with the validation's error, whatever the directive; the
  unsupported-type error is raised only for an input that passed the validation; and the
  run of the analysis is the opening log record, then the run of the validation, then
  the rest: no strategy is invoked before the rest, and none in the rest when the
  validation failed.
\<close>

theorem analyze_validates_first:
  "(\<forall>e. fst (validate_image env s) = Inl e \<longrightarrow> fst (analyze env s d) = Inl e)
   \<and> (\<forall>d'. fst (analyze env s d) = Inl (ValueError (''Invalid analysis type: '' @ d')) \<longrightarrow>
         (\<exists>v. fst (validate_image env s) = Inr v))
   \<and> (\<exists>rest. snd (analyze env s d) =
                LogInfo (''Starting analysis of type: '' @ d) # snd (validate_image env s) @ rest
         \<and> ((\<exists>e. fst (validate_image env s) = Inl e) \<longrightarrow> \<not> list_ex strategy_event rest))
   \<and> \<not> list_ex strategy_event
         (LogInfo (''Starting analysis of type: '' @ d) # snd (validate_image env s))"
proof -
  obtain r t where v: "validate_image env s = (r, t)"
    by (meson surj_pair)
  from validate_image_no_strategy [of env s]
  have 4: "\<not> list_ex strategy_event
         (LogInfo (''Starting analysis of type: '' @ d) # snd (validate_image env s))"
    by simp
  show ?thesis
  proof (cases r)
    case (Inl e)
    with v have f: "fst (validate_image env s) = Inl e"
      by simp
    from validate_image_error_prefix [OF f] obtain m
      where m: "e = ValueError (''Invalid image data: '' @ m)" ..
    from v Inl have a: "analyze env s d =
           (Inl e, LogInfo (''Starting analysis of type: '' @ d) # t
                     @ [LogError (''Analysis failed: '' @ exn_str e)])"
      by (simp add: analyze_validation_failure)
    have 1: "\<forall>e. fst (validate_image env s) = Inl e \<longrightarrow> fst (analyze env s d) = Inl e"
      using f a by simp
    have 2: "\<forall>d'. fst (analyze env s d) = Inl (ValueError (''Invalid analysis type: '' @ d')) \<longrightarrow>
         (\<exists>v. fst (validate_image env s) = Inr v)"
      using a m by simp
    have "snd (analyze env s d) =
                LogInfo (''Starting analysis of type: '' @ d) # snd (validate_image env s)
                  @ [LogError (''Analysis failed: '' @ exn_str e)]
         \<and> ((\<exists>e. fst (validate_image env s) = Inl e) \<longrightarrow>
               \<not> list_ex strategy_event [LogError (''Analysis failed: '' @ exn_str e)])"
      using a v by simp
    then have 3: "\<exists>rest. snd (analyze env s d) =
                LogInfo (''Starting analysis of type: '' @ d) # snd (validate_image env s) @ rest
         \<and> ((\<exists>e. fst (validate_image env s) = Inl e) \<longrightarrow> \<not> list_ex strategy_event rest)"
      by blast
    from 1 2 3 4 show ?thesis
      by blast
  next
    case (Inr x)
    with v have f: "fst (validate_image env s) = Inr x"
      by simp
    from analyze_trace_prefix [of env s d] f
    have 3: "\<exists>rest. snd (analyze env s d) =
                LogInfo (''Starting analysis of type: '' @ d) # snd (validate_image env s) @ rest
         \<and> ((\<exists>e. fst (validate_image env s) = Inl e) \<longrightarrow> \<not> list_ex strategy_event rest)"
      by simp
    from f 3 4 show ?thesis
      by simp
  qed
qed

theorem analyze_validates_first_witness:
  "fst (validate_image sample_env ''abc'') = Inl (ValueError ''Invalid image data: Incorrect padding'')
   \<and> fst (analyze sample_env ''abc'' ''foo'') = Inl (ValueError ''Invalid image data: Incorrect padding'')
   \<and> fst (analyze sample_env ''abc'' ''web_search'')
       = Inl (ValueError ''Invalid image data: Incorrect padding'')
   \<and> fst (analyze sample_env ''/9j/2Q=='' ''foo'') = Inl (ValueError ''Invalid analysis type: foo'')
   \<and> (\<exists>v. fst (validate_image sample_env ''/9j/2Q=='') = Inr v)"
proof -
  have v: "fst (validate_image sample_env ''abc'')
             = Inl (ValueError ''Invalid image data: Incorrect padding'')"
    by (simp add: validate_image_def io_defs Let_def bnd_pair sample_env_def py_strip_def
        py_remove_def py_isspace_def)
  from analyze_validates_first [of sample_env "''abc''" "''foo''"] v
  have 1: "fst (analyze sample_env ''abc'' ''foo'')
             = Inl (ValueError ''Invalid image data: Incorrect padding'')"
    by blast
  from analyze_validates_first [of sample_env "''abc''" "''web_search''"] v
  have 2: "fst (analyze sample_env ''abc'' ''web_search'')
             = Inl (ValueError ''Invalid image data: Incorrect padding'')"
    by blast
  have "validate_image sample_env ''/9j/2Q=='' =
          (Inr (sample_bytes, sample_image), snd (validate_image sample_env ''/9j/2Q==''))"
    by (simp add: validate_image_def io_defs Let_def bnd_pair try_except_pair
        sample_env_def py_strip_def py_remove_def py_isspace_def sample_bytes_def
        MAX_IMAGE_SIZE_def)
  from analyze_unsupported [OF this, of "''foo''"]
  have 3: "fst (analyze sample_env ''/9j/2Q=='' ''foo'')
             = Inl (ValueError (''Invalid analysis type: '' @ ''foo''))"
    by simp
  from analyze_validates_first [of sample_env "''/9j/2Q==''" "''foo''"] 3
  have 4: "\<exists>v. fst (validate_image sample_env ''/9j/2Q=='') = Inr v"
    by blast
  from v 1 2 3 4 show ?thesis
    by simp
qed

section \<open>The endpoint's answers\<close>

text \<open>
  Whatever makes the analysis fail, a validation error, a failure of a remote service or
  an unsupported directive, the endpoint answers with the status 400 and the message of
  the exception: the handler for the status 500 is never reached from the analyzer. It
  is reached when the analysis returns and the rendering of its result raises an
  exception that is not a \<^verbatim>\<open>ValueError\<close>.
\<close>

lemma analyze_fraud_failure:
  assumes "fst (analyze env (source request) (analysis_kind_str (analysis_type request))) = Inl e"
  shows "fst (analyze_fraud env request) = Inl (HTTPException 400 (exn_str e))"
proof -
  from analyze_error_is_ValueError [OF assms] obtain m where m: "e = ValueError m" ..
  obtain r t
    where a: "analyze env (source request) (analysis_kind_str (analysis_type request)) = (r, t)"
    by (meson surj_pair)
  with assms m have "r = Inl (ValueError m)" by simp
  with a m show ?thesis
    by (simp add: analyze_fraud_def io_defs)
qed

lemma analyze_fraud_success:
  assumes "fst (analyze env (source request) (analysis_kind_str (analysis_type request)))
             = Inr response"
    and "json_render env response = Inr ()"
  shows "fst (analyze_fraud env request) = Inr (JSONResponse response)"
proof -
  obtain r t
    where a: "analyze env (source request) (analysis_kind_str (analysis_type request)) = (r, t)"
    by (meson surj_pair)
  with assms have "r = Inr response" by simp
  with a assms(2) show ?thesis
    by (simp add: analyze_fraud_def io_defs)
qed

lemma analyze_fraud_render_failure:
  assumes "fst (analyze env (source request) (analysis_kind_str (analysis_type request)))
             = Inr response"
    and "json_render env response = Inl e"
  shows "fst (analyze_fraud env request) =
           Inl (case e of
                  ValueError m \<Rightarrow> HTTPException 400 m
                | OtherException m \<Rightarrow>
                    HTTPException 500 (''An unexpected error occurred: '' @ m))"
proof -
  obtain r t
    where a: "analyze env (source request) (analysis_kind_str (analysis_type request)) = (r, t)"
    by (meson surj_pair)
  with assms have "r = Inr response" by simp
  with a assms(2) show ?thesis
    by (cases e) (simp_all add: analyze_fraud_def io_defs)
qed

lemma validate_image_unavailable_env:
  "validate_image unavailable_env ''/9j/2Q=='' =
     (Inr (sample_bytes, sample_image),
      [LogInfo ''Starting image validation'', Ext (B64decode ''/9j/2Q==''),
       LogInfo ''Image size: 4 bytes'', Ext (Image_open sample_bytes), Ext Image_verify,
       Ext (Image_open sample_bytes),
       LogInfo ''Image validated successfully. Format: JPEG''])"
  by (simp add: validate_image_def io_defs Let_def bnd_pair try_except_pair
      unavailable_env_def sample_env_def py_strip_def py_remove_def py_isspace_def
      MAX_IMAGE_SIZE_def str_nat.simps digit_char_def)
     (simp add: sample_bytes_def sample_image_def)

text \<open>
  C2 does not hold of the code. The request is a valid image with the analysis type
  \<^verbatim>\<open>web_search\<close>, and the web-detection service fails. The strategy raises the failure
  again as a \<^verbatim>\<open>ValueError\<close>, and the endpoint answers a \<^verbatim>\<open>ValueError\<close>, which it logs as
  a validation error, with the status 400, where C2 says a server error.
\<close>

theorem analyze_fraud_remote_failure_status:
  "analyze_fraud unavailable_env
     \<lparr>source_type = Base64, source = ''/9j/2Q=='', analysis_type = Web_search\<rparr> =
     (Inl (HTTPException 400 ''Web detection failed: 503 Service Unavailable''),
      [LogInfo ''Received request for analysis type: web_search'',
       LogInfo ''Starting analysis of type: web_search'',
       LogInfo ''Starting image validation'', Ext (B64decode ''/9j/2Q==''),
       LogInfo ''Image size: 4 bytes'', Ext (Image_open sample_bytes), Ext Image_verify,
       Ext (Image_open sample_bytes),
       LogInfo ''Image validated successfully. Format: JPEG'',
       LogInfo ''Starting web detection'', Ext (Web_detection sample_bytes),
       LogError ''Web detection failed: 503 Service Unavailable'',
       LogError ''Analysis failed: Web detection failed: 503 Service Unavailable'',
       LogError ''Validation error: Web detection failed: 503 Service Unavailable''])"
proof -
  have "vision_web_detection unavailable_env sample_bytes
          = Inl (OtherException ''503 Service Unavailable'')"
    by (simp add: unavailable_env_def)
  then show ?thesis
    by (simp add: analyze_fraud_def analyze_def validate_image_unavailable_env process_web_detection_def
        io_defs bnd_pair try_except_pair)
qed

end
